theory Spec2Isabelle
  imports Main "HOL-Library.Char_ord" "HOL-Library.List_Lexorder"
begin

section \<open>Data model (src/app.py, lines 13-22)\<close>

text \<open>
  A row of the table \<^verbatim>\<open>PLFSRecord\<close>. Python's \<^verbatim>\<open>str\<close> is modelled by \<^typ>\<open>string\<close>,
  one \<^typ>\<open>char\<close> per code point below 256; Python's unbounded \<^verbatim>\<open>int\<close> by \<^typ>\<open>int\<close>.
  The primary key \<^verbatim>\<open>id\<close> is called \<open>id_col\<close>.
\<close>

record PLFSRecord =
  id_col :: int
  state :: string
  gender :: string
  age :: int
  year :: string
  employment_status :: string
  wage :: int

text \<open>The flag of line 26, as shipped.\<close>

definition TEST_MODE :: bool where
  "TEST_MODE = True"

section \<open>Loading the store (lines 28-51)\<close>

text \<open>
  \<^verbatim>\<open>str.strip()\<close> with no argument removes leading and trailing whitespace:
  the code points below 256 for which \<^verbatim>\<open>str.isspace\<close> holds.
\<close>

definition py_isspace :: "char \<Rightarrow> bool" where
  "py_isspace c = (of_char c \<in> {9::nat, 10, 11, 12, 13, 28, 29, 30, 31, 32, 133, 160})"

definition strip :: "string \<Rightarrow> string" where
  "strip s = rev (dropWhile py_isspace (rev (dropWhile py_isspace s)))"

text \<open>
  A row of the data frame as the loader reads it: the text columns hold
  \<^verbatim>\<open>str(row[...])\<close>, the numeric columns \<^verbatim>\<open>int(row[...])\<close> (a row on which
  \<^verbatim>\<open>int\<close> raises aborts the start-up, so no store exists then). The table is
  dropped and created anew before the load, so the keys count from 1.
\<close>

record csv_row =
  csv_state :: string
  csv_gender :: string
  csv_age :: int
  csv_year :: string
  csv_employment_status :: string
  csv_wage :: int

definition load_row :: "nat \<times> csv_row \<Rightarrow> PLFSRecord" where
  "load_row p =
     \<lparr>id_col = int (fst p) + 1,
      state = strip (csv_state (snd p)),
      gender = strip (csv_gender (snd p)),
      age = csv_age (snd p),
      year = strip (csv_year (snd p)),
      employment_status = strip (csv_employment_status (snd p)),
      wage = csv_wage (snd p)\<rparr>"

definition load_csv_to_db :: "csv_row list \<Rightarrow> PLFSRecord list" where
  "load_csv_to_db df = map load_row (enumerate 0 df)"

section \<open>Requests\<close>

text \<open>
  \<^verbatim>\<open>request.form\<close>: a multi-dict of strings; \<^verbatim>\<open>get\<close> gives the first value of a
  key, or \<^verbatim>\<open>None\<close>.
\<close>

type_synonym form = "(string \<times> string) list"

definition form_get :: "form \<Rightarrow> string \<Rightarrow> string option" where
  "form_get form k = map_of form k"

text \<open>
  \<^verbatim>\<open>request.json\<close>: the parsed body. Numbers are the integers; a Python dict has
  one value per key, which \<^const>\<open>map_of\<close> reads.
\<close>

datatype json =
  JNull | JBool bool | JNum int | JStr string | JArr "json list" | JObj "(string \<times> json) list"

fun truthy :: "json \<Rightarrow> bool" where
  "truthy JNull = False"
| "truthy (JBool b) = b"
| "truthy (JNum n) = (n \<noteq> 0)"
| "truthy (JStr s) = (s \<noteq> [])"
| "truthy (JArr xs) = (xs \<noteq> [])"
| "truthy (JObj kvs) = (kvs \<noteq> [])"

text \<open>
  The exceptions a view can raise: \<^verbatim>\<open>AttributeError\<close> at line 221, an error of the
  database driver or an \<^verbatim>\<open>OverflowError\<close> when the query binds its values, and in
  the workbook writer \<^verbatim>\<open>IllegalCharacterError\<close> and \<^verbatim>\<open>ValueError\<close>.
\<close>

datatype error =
  AttributeError | DBAPIError | OverflowError | IllegalCharacterError | ValueError

section \<open>Building the query\<close>

text \<open>
  The block repeated at lines 78-85, 130-137 and 172-179:
  \<^verbatim>\<open>if filters[k]: query = query.filter(PLFSRecord.k == filters[k])\<close>.
  A query is the list of rows it selects, in store order.
\<close>

definition filter_eq ::
  "(PLFSRecord \<Rightarrow> string) \<Rightarrow> string option \<Rightarrow> PLFSRecord list \<Rightarrow> PLFSRecord list" where
  "filter_eq col v query =
     (case v of
        None \<Rightarrow> query
      | Some s \<Rightarrow> if s \<noteq> [] then filter (\<lambda>r. col r = s) query else query)"

definition form_query :: "form \<Rightarrow> PLFSRecord list \<Rightarrow> PLFSRecord list" where
  "form_query form store =
     (let query = store;
          query = filter_eq state (form_get form ''state'') query;
          query = filter_eq gender (form_get form ''gender'') query;
          query = filter_eq employment_status (form_get form ''employment_status'') query;
          query = filter_eq year (form_get form ''year'') query
      in query)"

text \<open>The suppression of lines 90-91, 140-141 and 182-183.\<close>

definition privacy_suppression :: "bool \<Rightarrow> PLFSRecord list \<Rightarrow> PLFSRecord list" where
  "privacy_suppression test_mode results =
     (if \<not> test_mode \<and> length results < 5 then [] else results)"

text \<open>
  The comparison of a text column with a bound JSON value (lines 222-228). A string
  is compared for equality. What the database driver does with any other value is
  not in the repository: it is the parameter \<open>driver\<close>, which either fails or
  gives the test on the column's text.
\<close>

type_synonym driver = "json \<Rightarrow> error + (string \<Rightarrow> bool)"

definition bind_param :: "driver \<Rightarrow> json \<Rightarrow> error + (string \<Rightarrow> bool)" where
  "bind_param driver v = (case v of JStr s \<Rightarrow> Inr (\<lambda>c. c = s) | _ \<Rightarrow> driver v)"

definition api_filter_eq ::
  "driver \<Rightarrow> (PLFSRecord \<Rightarrow> string) \<Rightarrow> json option \<Rightarrow> error + PLFSRecord list
     \<Rightarrow> error + PLFSRecord list" where
  "api_filter_eq driver col v query =
     (case query of
        Inl e \<Rightarrow> Inl e
      | Inr rows \<Rightarrow>
          (case v of
             None \<Rightarrow> Inr rows
           | Some j \<Rightarrow>
               if truthy j then
                 (case bind_param driver j of
                    Inl e \<Rightarrow> Inl e
                  | Inr p \<Rightarrow> Inr (filter (\<lambda>r. p (col r)) rows))
               else Inr rows))"

text \<open>
  Lines 218-230: \<^verbatim>\<open>filters.get\<close> exists on a dict only, so any other body raises
  \<^verbatim>\<open>AttributeError\<close> at line 221. The body is the value \<^verbatim>\<open>request.json\<close> has
  parsed; a request that carries no JSON is refused by the framework at line 219
  and is outside the model. The query runs at \<^verbatim>\<open>query.all()\<close>, where a value
  the driver cannot bind fails.
\<close>

definition api_filter_query :: "driver \<Rightarrow> json \<Rightarrow> PLFSRecord list \<Rightarrow> error + PLFSRecord list" where
  "api_filter_query driver body store =
     (case body of
        JObj filters \<Rightarrow>
          (let query = Inr store;
               query = api_filter_eq driver state (map_of filters ''state'') query;
               query = api_filter_eq driver gender (map_of filters ''gender'') query;
               query = api_filter_eq driver employment_status
                         (map_of filters ''employment_status'') query;
               query = api_filter_eq driver year (map_of filters ''year'') query
           in query)
      | _ \<Rightarrow> Inl AttributeError)"

section \<open>Formatting results\<close>

text \<open>
  The dict literal of lines 148-155, 185-192, 207-214 and 231-238, keys in the
  order written. A value is a \<^verbatim>\<open>str\<close> or an \<^verbatim>\<open>int\<close>.
\<close>

datatype pyval = PStr string | PInt int

definition record_dict :: "PLFSRecord \<Rightarrow> (string \<times> pyval) list" where
  "record_dict r =
     [(''state'', PStr (state r)),
      (''gender'', PStr (gender r)),
      (''age'', PInt (age r)),
      (''year'', PStr (year r)),
      (''employment_status'', PStr (employment_status r)),
      (''wage'', PInt (wage r))]"

subsection \<open>JSON (lines 207-214, 231-238)\<close>

text \<open>
  \<^verbatim>\<open>jsonify\<close> of a list of dicts: the array of their objects. An object is the
  association list of its dict; the order of the keys in the serialised text is
  not modelled.
\<close>

definition to_json :: "pyval \<Rightarrow> json" where
  "to_json v = (case v of PStr s \<Rightarrow> JStr s | PInt n \<Rightarrow> JNum n)"

definition jsonify :: "(string \<times> pyval) list list \<Rightarrow> json" where
  "jsonify dicts = JArr (map (\<lambda>d. JObj (map (\<lambda>kv. (fst kv, to_json (snd kv))) d)) dicts)"

subsection \<open>CSV (lines 143-157)\<close>

text \<open>\<^verbatim>\<open>str\<close> of an \<^verbatim>\<open>int\<close>: decimal digits, with a minus sign when negative.\<close>

definition digit_char :: "nat \<Rightarrow> char" where
  "digit_char d = ''0123456789'' ! d"

fun str_nat :: "nat \<Rightarrow> string" where
  "str_nat n =
     (if n < 10 then [digit_char n]
      else str_nat (n div 10) @ [digit_char (n mod 10)])"

declare str_nat.simps [simp del]

definition str_int :: "int \<Rightarrow> string" where
  "str_int i = (if i < 0 then CHR ''-'' # str_nat (nat (- i)) else str_nat (nat i))"

definition py_str :: "pyval \<Rightarrow> string" where
  "py_str v = (case v of PStr s \<Rightarrow> s | PInt n \<Rightarrow> str_int n)"

text \<open>
  \<^verbatim>\<open>csv.writer\<close> in the default dialect: delimiter comma, quote character
  \<^verbatim>\<open>"\<close> doubled inside a quoted field, line terminator CR LF, minimal quoting
  (a field is quoted when it holds the delimiter, the quote character or a
  character of the line terminator).
\<close>

definition dquote :: char where
  "dquote = CHR 0x22"

definition CR :: char where
  "CR = CHR 0x0D"

definition LF :: char where
  "LF = CHR 0x0A"

definition csv_special :: "char \<Rightarrow> bool" where
  "csv_special c = (c = CHR '','' \<or> c = dquote \<or> c = CR \<or> c = LF)"

definition csv_field :: "string \<Rightarrow> string" where
  "csv_field s =
     (if list_ex csv_special s
      then [dquote] @ concat (map (\<lambda>c. if c = dquote then [dquote, dquote] else [c]) s) @ [dquote]
      else s)"

fun join_fields :: "string list \<Rightarrow> string" where
  "join_fields [] = []"
| "join_fields [f] = f"
| "join_fields (f # fs) = f @ '','' @ join_fields fs"

text \<open>
  \<^verbatim>\<open>writer.writerow\<close> appends one line to the buffer \<open>si\<close>; a row of one
  empty field is written as an empty quoted field.
\<close>

definition writer_writerow :: "string \<Rightarrow> pyval list \<Rightarrow> string" where
  "writer_writerow si row =
     si @ (if map py_str row = [[]] then [dquote, dquote]
           else join_fields (map (csv_field \<circ> py_str) row)) @ [CR, LF]"

definition fieldnames :: "string list" where
  "fieldnames = [''state'', ''gender'', ''age'', ''year'', ''employment_status'', ''wage'']"

text \<open>\<^verbatim>\<open>csv.DictWriter\<close>: a missing key is written as the empty string.\<close>

definition writeheader :: "string \<Rightarrow> string" where
  "writeheader si = writer_writerow si (map PStr fieldnames)"

definition writerow :: "string \<Rightarrow> (string \<times> pyval) list \<Rightarrow> string" where
  "writerow si rowdict =
     writer_writerow si
       (map (\<lambda>k. case map_of rowdict k of Some v \<Rightarrow> v | None \<Rightarrow> PStr []) fieldnames)"

text \<open>Lines 143-157: the loop over \<open>results\<close> threads the buffer.\<close>

definition csv_output :: "PLFSRecord list \<Rightarrow> string" where
  "csv_output results =
     (let si = [] in
      if results \<noteq> []
      then foldl (\<lambda>si r. writerow si (record_dict r)) (writeheader si) results
      else si)"

subsection \<open>Spreadsheet (lines 185-196)\<close>

text \<open>
  \<^verbatim>\<open>pd.DataFrame\<close> of a list of dicts with the same keys: the columns are the
  keys of the first dict, and there is none for the empty list.
\<close>

record data_frame =
  columns :: "string list"
  frame_rows :: "pyval list list"

definition DataFrame :: "(string \<times> pyval) list list \<Rightarrow> data_frame" where
  "DataFrame dicts =
     (case dicts of
        [] \<Rightarrow> \<lparr>columns = [], frame_rows = []\<rparr>
      | d # _ \<Rightarrow> \<lparr>columns = map fst d, frame_rows = map (map snd) dicts\<rparr>)"

text \<open>
  A cell of the worksheet, by its value (the data type the writer gives a text
  is not modelled). The writer cuts a text to 32767 characters and raises
  \<^verbatim>\<open>IllegalCharacterError\<close> when it holds a control character other than tab,
  line feed and carriage return. A number is stored as a double: an integer up to
  \<open>2 ^ 53\<close> in size is kept as it is, and of a larger one the cell holds an
  approximation, \<open>XRounded n\<close>, that the model leaves open.
\<close>

datatype xcell = XText string | XNumber int | XRounded int

definition illegal_character :: "char \<Rightarrow> bool" where
  "illegal_character c = (of_char c \<in> {0..8} \<union> {11, 12} \<union> {14..31::nat})"

definition write_cell :: "pyval \<Rightarrow> error + xcell" where
  "write_cell v =
     (case v of
        PStr s \<Rightarrow>
          (let t = take 32767 s
           in if list_ex illegal_character t then Inl IllegalCharacterError else Inr (XText t))
      | PInt n \<Rightarrow> Inr (if \<bar>n\<bar> \<le> 2 ^ 53 then XNumber n else XRounded n))"

text \<open>The cells are written row by row; the first exception ends the writing.\<close>

fun write_row :: "pyval list \<Rightarrow> error + xcell list" where
  "write_row [] = Inr []"
| "write_row (v # vs) =
     (case write_cell v of
        Inl e \<Rightarrow> Inl e
      | Inr c \<Rightarrow> (case write_row vs of Inl e \<Rightarrow> Inl e | Inr cs \<Rightarrow> Inr (c # cs)))"

fun write_rows :: "pyval list list \<Rightarrow> error + xcell list list" where
  "write_rows [] = Inr []"
| "write_rows (r # rs) =
     (case write_row r of
        Inl e \<Rightarrow> Inl e
      | Inr c \<Rightarrow> (case write_rows rs of Inl e \<Rightarrow> Inl e | Inr cs \<Rightarrow> Inr (c # cs)))"

text \<open>
  \<^verbatim>\<open>to_excel\<close> with \<^verbatim>\<open>index=False\<close>: a frame of more than \<open>2 ^ 20\<close> rows is
  refused with \<^verbatim>\<open>ValueError\<close>; otherwise the column names are written, then the
  rows. The model of the workbook is its sheet name and its cells.
\<close>

record workbook =
  sheet_name :: string
  cells :: "xcell list list"

definition to_excel :: "data_frame \<Rightarrow> string \<Rightarrow> error + workbook" where
  "to_excel df name =
     (if 2 ^ 20 < length (frame_rows df) then Inl ValueError
      else
        (case write_rows
                ((if columns df = [] then [] else [map PStr (columns df)]) @ frame_rows df) of
           Inl e \<Rightarrow> Inl e
         | Inr cs \<Rightarrow> Inr \<lparr>sheet_name = name, cells = cs\<rparr>))"

section \<open>Routes\<close>

subsection \<open>\<^verbatim>\<open>/explore\<close> (lines 62-117)\<close>

text \<open>
  Lines 96-99: \<^verbatim>\<open>sorted({row[0].strip() for row in
  db.session.query(col).distinct().all() if row[0]})\<close>.
\<close>

definition dropdown :: "(PLFSRecord \<Rightarrow> string) \<Rightarrow> PLFSRecord list \<Rightarrow> string list" where
  "dropdown col store =
     sorted_list_of_set (set (map strip (filter (\<lambda>v. v \<noteq> []) (remdups (map col store)))))"

text \<open>What the template \<^verbatim>\<open>explore.html\<close> is rendered with.\<close>

record explore_context =
  filters :: "(string \<times> string option) list"
  results :: "PLFSRecord list"
  states :: "string list"
  genders :: "string list"
  emp_status :: "string list"
  years :: "string list"

text \<open>\<^verbatim>\<open>request.form.get("chart_type") or "bar"\<close>.\<close>

definition or_bar :: "string option \<Rightarrow> string" where
  "or_bar v = (case v of None \<Rightarrow> ''bar'' | Some s \<Rightarrow> if s \<noteq> [] then s else ''bar'')"

text \<open>The request is \<open>None\<close> for GET and the form for POST.\<close>

definition explore :: "bool \<Rightarrow> PLFSRecord list \<Rightarrow> form option \<Rightarrow> explore_context" where
  "explore test_mode store req =
     (let fr =
        (case req of
           Some form \<Rightarrow>
             ([(''state'', form_get form ''state''),
               (''gender'', form_get form ''gender''),
               (''employment_status'', form_get form ''employment_status''),
               (''year'', form_get form ''year''),
               (''chart_type'', Some (or_bar (form_get form ''chart_type'')))],
              privacy_suppression test_mode (form_query form store))
         | None \<Rightarrow> ([(''chart_type'', Some ''bar'')], []))
      in \<lparr>filters = fst fr,
          results = snd fr,
          states = dropdown state store,
          genders = dropdown gender store,
          emp_status = dropdown employment_status store,
          years = dropdown year store\<rparr>)"

subsection \<open>\<^verbatim>\<open>/download_csv\<close> (lines 120-159)\<close>

definition download_csv :: "bool \<Rightarrow> PLFSRecord list \<Rightarrow> form \<Rightarrow> string" where
  "download_csv test_mode store form =
     csv_output (privacy_suppression test_mode (form_query form store))"

subsection \<open>\<^verbatim>\<open>/download_excel\<close> (lines 162-201)\<close>

definition download_excel :: "bool \<Rightarrow> PLFSRecord list \<Rightarrow> form \<Rightarrow> error + workbook" where
  "download_excel test_mode store form =
     to_excel
       (DataFrame (map record_dict (privacy_suppression test_mode (form_query form store))))
       ''PLFS_Data''"

subsection \<open>\<^verbatim>\<open>/api/data\<close> (lines 204-214)\<close>

definition api_data :: "PLFSRecord list \<Rightarrow> json" where
  "api_data store = jsonify (map record_dict store)"

subsection \<open>\<^verbatim>\<open>/api/filter\<close> (lines 216-238)\<close>

text \<open>
  The driver that line 9 configures, SQLite through Python's \<^verbatim>\<open>sqlite3\<close>: an
  integer of 64 bits (and \<^verbatim>\<open>True\<close>, the integer 1) is bound as an integer and
  compared with a text column as its decimal text; a larger integer raises
  \<^verbatim>\<open>OverflowError\<close>; a list or a dict cannot be bound; \<^verbatim>\<open>None\<close> is NULL,
  which equals nothing.
\<close>

definition int64 :: "int \<Rightarrow> bool" where
  "int64 n = (- (2 ^ 63) \<le> n \<and> n < 2 ^ 63)"

definition sqlite_driver :: driver where
  "sqlite_driver v =
     (case v of
        JNull \<Rightarrow> Inr (\<lambda>c. False)
      | JBool b \<Rightarrow> Inr (\<lambda>c. c = (if b then ''1'' else ''0''))
      | JNum n \<Rightarrow> if int64 n then Inr (\<lambda>c. c = str_int n) else Inl OverflowError
      | JStr s \<Rightarrow> Inr (\<lambda>c. c = s)
      | JArr xs \<Rightarrow> Inl DBAPIError
      | JObj kvs \<Rightarrow> Inl DBAPIError)"

definition api_filter :: "driver \<Rightarrow> PLFSRecord list \<Rightarrow> json \<Rightarrow> error + json" where
  "api_filter driver store body =
     (case api_filter_query driver body store of
        Inl e \<Rightarrow> Inl e
      | Inr rs \<Rightarrow> Inr (jsonify (map record_dict rs)))"

subsection \<open>The application\<close>

text \<open>
  The routes of the application, run with the mode flag \<open>test_mode\<close>; the two
  API routes do not read it. An exception that leaves a view is answered with
  status 500, a returned value with status 200.
\<close>

datatype request =
  GetIndex | GetAbout | GetExplore | PostExplore form | PostDownloadCsv form
  | PostDownloadExcel form | GetApiData | PostApiFilter json

datatype response =
  Template string | ExplorePage explore_context | CsvFile string | ExcelFile workbook
  | JsonBody json

definition route :: "bool \<Rightarrow> driver \<Rightarrow> PLFSRecord list \<Rightarrow> request \<Rightarrow> error + response" where
  "route test_mode driver store req =
     (case req of
        GetIndex \<Rightarrow> Inr (Template ''index.html'')
      | GetAbout \<Rightarrow> Inr (Template ''about.html'')
      | GetExplore \<Rightarrow> Inr (ExplorePage (explore test_mode store None))
      | PostExplore form \<Rightarrow> Inr (ExplorePage (explore test_mode store (Some form)))
      | PostDownloadCsv form \<Rightarrow> Inr (CsvFile (download_csv test_mode store form))
      | PostDownloadExcel form \<Rightarrow>
          (case download_excel test_mode store form of
             Inl e \<Rightarrow> Inl e
           | Inr w \<Rightarrow> Inr (ExcelFile w))
      | GetApiData \<Rightarrow> Inr (JsonBody (api_data store))
      | PostApiFilter body \<Rightarrow>
          (case api_filter driver store body of
             Inl e \<Rightarrow> Inl e
           | Inr j \<Rightarrow> Inr (JsonBody j)))"

definition status_code :: "error + response \<Rightarrow> nat" where
  "status_code r = (case r of Inl e \<Rightarrow> 500 | Inr v \<Rightarrow> 200)"

section \<open>The properties, in the words of the specification\<close>

text \<open>The four fields of a filter.\<close>

definition filter_keys :: "string list" where
  "filter_keys = [''state'', ''gender'', ''employment_status'', ''year'']"

text \<open>
  A filter gives each key a value or none. A field set to a non-empty value \<open>s\<close>
  asks the record's field to equal \<open>s\<close>; a record satisfies the filter when it
  meets the constraint of each of the four fields.
\<close>

definition constraint_holds :: "string option \<Rightarrow> string \<Rightarrow> bool" where
  "constraint_holds v x = (case v of None \<Rightarrow> True | Some s \<Rightarrow> s \<noteq> [] \<longrightarrow> x = s)"

definition satisfies :: "(string \<Rightarrow> string option) \<Rightarrow> PLFSRecord \<Rightarrow> bool" where
  "satisfies flt r =
     (constraint_holds (flt ''state'') (state r) \<and>
      constraint_holds (flt ''gender'') (gender r) \<and>
      constraint_holds (flt ''employment_status'') (employment_status r) \<and>
      constraint_holds (flt ''year'') (year r))"

text \<open>A filter with every field empty: each of the four is absent or the empty string.\<close>

definition unconstrained :: "(string \<Rightarrow> string option) \<Rightarrow> bool" where
  "unconstrained flt = list_all (\<lambda>k. flt k = None \<or> flt k = Some []) filter_keys"

text \<open>
  A JSON body \<open>{state?, gender?, employment_status?, year?}\<close> read as a filter:
  the strings among its four values.
\<close>

definition json_text :: "json option \<Rightarrow> string option" where
  "json_text v = (case v of Some (JStr s) \<Rightarrow> Some s | _ \<Rightarrow> None)"

definition json_filter :: "(string \<times> json) list \<Rightarrow> string \<Rightarrow> string option" where
  "json_filter kvs k = json_text (map_of kvs k)"

definition is_text :: "json option \<Rightarrow> bool" where
  "is_text v = (case v of None \<Rightarrow> True | Some j \<Rightarrow> (case j of JStr s \<Rightarrow> True | _ \<Rightarrow> False))"

text \<open>A driver that binds no value but a string; used where a driver must be named.\<close>

definition no_driver :: driver where
  "no_driver v = Inl DBAPIError"

text \<open>The three records of the specification's scenario, as the loader stores them.\<close>

definition example_rows :: "csv_row list" where
  "example_rows =
     [\<lparr>csv_state = ''CA'', csv_gender = ''F'', csv_age = 30, csv_year = ''2021'',
       csv_employment_status = ''Employed'', csv_wage = 50000\<rparr>,
      \<lparr>csv_state = ''TX'', csv_gender = ''M'', csv_age = 25, csv_year = ''2021'',
       csv_employment_status = ''Unemployed'', csv_wage = 0\<rparr>,
      \<lparr>csv_state = ''CA'', csv_gender = ''M'', csv_age = 40, csv_year = ''2020'',
       csv_employment_status = ''Employed'', csv_wage = 60000\<rparr>]"

definition example_store :: "PLFSRecord list" where
  "example_store = load_csv_to_db example_rows"

definition rec1 :: PLFSRecord where
  "rec1 = \<lparr>id_col = 1, state = ''CA'', gender = ''F'', age = 30, year = ''2021'',
            employment_status = ''Employed'', wage = 50000\<rparr>"

definition rec2 :: PLFSRecord where
  "rec2 = \<lparr>id_col = 2, state = ''TX'', gender = ''M'', age = 25, year = ''2021'',
            employment_status = ''Unemployed'', wage = 0\<rparr>"

definition rec3 :: PLFSRecord where
  "rec3 = \<lparr>id_col = 3, state = ''CA'', gender = ''M'', age = 40, year = ''2020'',
            employment_status = ''Employed'', wage = 60000\<rparr>"

text \<open>
  The layout of the CSV export: the header row, and the data row of a record (the
  two numbers in decimal, the four texts as the writer quotes them).
\<close>

definition header_line :: string where
  "header_line = ''state,gender,age,year,employment_status,wage'' @ [CR, LF]"

definition data_line :: "PLFSRecord \<Rightarrow> string" where
  "data_line r =
     csv_field (state r) @ '','' @ csv_field (gender r) @ '','' @ str_int (age r) @ '','' @
     csv_field (year r) @ '','' @ csv_field (employment_status r) @ '','' @ str_int (wage r) @
     [CR, LF]"

text \<open>
  The constraint a form value or a JSON value puts on its field: none when the
  value is absent or falsy.
\<close>

definition effective :: "string option \<Rightarrow> string option" where
  "effective v = (case v of None \<Rightarrow> None | Some s \<Rightarrow> if s \<noteq> [] then Some s else None)"

definition json_effective :: "json option \<Rightarrow> json option" where
  "json_effective v = (case v of None \<Rightarrow> None | Some j \<Rightarrow> if truthy j then Some j else None)"

definition same_constraints :: "form \<Rightarrow> form \<Rightarrow> bool" where
  "same_constraints f1 f2 =
     list_all (\<lambda>k. effective (form_get f1 k) = effective (form_get f2 k)) filter_keys"

definition same_json_constraints :: "(string \<times> json) list \<Rightarrow> (string \<times> json) list \<Rightarrow> bool" where
  "same_json_constraints b1 b2 =
     list_all (\<lambda>k. json_effective (map_of b1 k) = json_effective (map_of b2 k)) filter_keys"

fun is_object :: "json \<Rightarrow> bool" where
  "is_object (JObj kvs) = True"
| "is_object j = False"

text \<open>A body whose four values are each absent, falsy or a string.\<close>

definition plain_value :: "json option \<Rightarrow> bool" where
  "plain_value v = (case v of None \<Rightarrow> True | Some j \<Rightarrow> \<not> truthy j \<or> is_text (Some j))"

definition plain_values :: "(string \<times> json) list \<Rightarrow> bool" where
  "plain_values kvs = list_all (\<lambda>k. plain_value (map_of kvs k)) filter_keys"

text \<open>A record whose state is the empty string.\<close>

definition blank_rec :: PLFSRecord where
  "blank_rec = \<lparr>id_col = 4, state = [], gender = ''F'', age = 51, year = ''2022'',
                employment_status = ''Employed'', wage = 100\<rparr>"

text \<open>
  Reading a CSV text back, for the round trip: fields separated by commas, records
  ended by CR or LF (empty lines skipped), a field in double quotes holding any
  character, with the quote doubled. The reader is a state machine over the
  characters: the state, the field being read, the fields of the record being
  read, and the records read.
\<close>

datatype pstate = StartRecord | StartField | InField | InQuotedField | QuoteInQuotedField

type_synonym reader = "pstate \<times> string \<times> string list \<times> string list list"

definition start_field :: "string list \<Rightarrow> string list list \<Rightarrow> char \<Rightarrow> reader" where
  "start_field row rows c =
     (if c = CR \<or> c = LF then (StartRecord, [], [], rows @ [row @ [[]]])
      else if c = dquote then (InQuotedField, [], row, rows)
      else if c = CHR '','' then (StartField, [], row @ [[]], rows)
      else (InField, [c], row, rows))"

fun step :: "reader \<Rightarrow> char \<Rightarrow> reader" where
  "step (StartRecord, fld, row, rows) c =
     (if c = CR \<or> c = LF then (StartRecord, [], [], rows) else start_field [] rows c)"
| "step (StartField, fld, row, rows) c = start_field row rows c"
| "step (InField, fld, row, rows) c =
     (if c = CR \<or> c = LF then (StartRecord, [], [], rows @ [row @ [fld]])
      else if c = CHR '','' then (StartField, [], row @ [fld], rows)
      else (InField, fld @ [c], row, rows))"
| "step (InQuotedField, fld, row, rows) c =
     (if c = dquote then (QuoteInQuotedField, fld, row, rows)
      else (InQuotedField, fld @ [c], row, rows))"
| "step (QuoteInQuotedField, fld, row, rows) c =
     (if c = dquote then (InQuotedField, fld @ [c], row, rows)
      else if c = CHR '','' then (StartField, [], row @ [fld], rows)
      else if c = CR \<or> c = LF then (StartRecord, [], [], rows @ [row @ [fld]])
      else (InField, fld @ [c], row, rows))"

fun finish :: "reader \<Rightarrow> string list list" where
  "finish (st, fld, row, rows) = (if st = StartRecord then rows else rows @ [row @ [fld]])"

definition csv_reader :: "string \<Rightarrow> string list list" where
  "csv_reader inp = finish (foldl step (StartRecord, [], [], []) inp)"

text \<open>A decimal integer, with an optional minus sign.\<close>

definition digit_val :: "char \<Rightarrow> nat option" where
  "digit_val c = (if c \<in> set ''0123456789'' then Some (of_char c - 48) else None)"

definition parse_digit :: "nat option \<Rightarrow> char \<Rightarrow> nat option" where
  "parse_digit acc c =
     (case acc of None \<Rightarrow> None
      | Some a \<Rightarrow> (case digit_val c of None \<Rightarrow> None | Some d \<Rightarrow> Some (10 * a + d)))"

definition parse_nat :: "string \<Rightarrow> nat option" where
  "parse_nat s = (if s = [] then None else foldl parse_digit (Some 0) s)"

definition parse_int :: "string \<Rightarrow> int option" where
  "parse_int s =
     (case s of
        [] \<Rightarrow> None
      | c # cs \<Rightarrow> if c = CHR ''-'' then map_option (\<lambda>n. - int n) (parse_nat cs)
                  else map_option int (parse_nat s))"

text \<open>
  The records of a CSV text: the first row names the columns, each later row
  gives a JSON object, the columns age and wage read as integers.
\<close>

definition typed_value :: "string \<Rightarrow> string \<Rightarrow> (string \<times> json) option" where
  "typed_value k v =
     (if k = ''age'' \<or> k = ''wage'' then map_option (\<lambda>n. (k, JNum n)) (parse_int v)
      else Some (k, JStr v))"

definition row_object :: "string list \<Rightarrow> string list \<Rightarrow> json option" where
  "row_object header row =
     map_option JObj (those (map (\<lambda>kv. typed_value (fst kv) (snd kv)) (zip header row)))"

definition parse_back :: "string \<Rightarrow> json list option" where
  "parse_back inp =
     (case csv_reader inp of
        [] \<Rightarrow> Some []
      | header # rows \<Rightarrow> those (map (row_object header) rows))"

text \<open>The JSON body that carries the same filter as a form.\<close>

definition json_of_form :: "form \<Rightarrow> json" where
  "json_of_form form = JObj (map (\<lambda>kv. (fst kv, JStr (snd kv))) form)"

text \<open>The six fields of a record as the CSV export writes them.\<close>

definition row_fields :: "PLFSRecord \<Rightarrow> string list" where
  "row_fields r =
     [state r, gender r, str_int (age r), year r, employment_status r, str_int (wage r)]"

text \<open>The reader has read the field \<open>s\<close> and waits for a comma or the end of the line.\<close>

definition field_done :: "reader \<Rightarrow> string \<Rightarrow> string list \<Rightarrow> string list list \<Rightarrow> bool" where
  "field_done \<sigma> s row rows =
     (\<sigma> = (InField, s, row, rows) \<or> \<sigma> = (QuoteInQuotedField, s, row, rows) \<or>
      (s = [] \<and> \<sigma> = (StartField, [], row, rows)))"

text \<open>
  What the SQLite driver makes of the value of a filter field on \<^verbatim>\<open>/api/filter\<close>.
  A value that is absent or falsy is not bound. A string, \<^verbatim>\<open>true\<close> and an integer
  of 64 bits can be bound, and are compared as the text \<open>bound_text\<close> gives; a
  non-empty array or object and a larger integer cannot.
\<close>

definition bindable :: "json option \<Rightarrow> bool" where
  "bindable v =
     (case v of
        None \<Rightarrow> True
      | Some j \<Rightarrow>
          \<not> truthy j \<or>
          (case j of JStr s \<Rightarrow> True | JBool b \<Rightarrow> True | JNum n \<Rightarrow> int64 n | _ \<Rightarrow> False))"

definition all_bindable :: "(string \<times> json) list \<Rightarrow> bool" where
  "all_bindable kvs = list_all (\<lambda>k. bindable (map_of kvs k)) filter_keys"

definition bound_text :: "json option \<Rightarrow> string option" where
  "bound_text v =
     (case v of
        None \<Rightarrow> None
      | Some j \<Rightarrow>
          if truthy j then
            (case j of
               JStr s \<Rightarrow> Some s
             | JBool b \<Rightarrow> Some ''1''
             | JNum n \<Rightarrow> Some (str_int n)
             | _ \<Rightarrow> None)
          else None)"

definition bound_filter :: "(string \<times> json) list \<Rightarrow> string \<Rightarrow> string option" where
  "bound_filter kvs k = bound_text (map_of kvs k)"

section \<open>Lemmas on the query\<close>

lemma example_store_rows: "example_store = [rec1, rec2, rec3]"
  by (simp add: example_store_def example_rows_def load_csv_to_db_def load_row_def strip_def
      py_isspace_def rec1_def rec2_def rec3_def)

lemma filter_eq_filter: "filter_eq col v query = filter (\<lambda>r. constraint_holds v (col r)) query"
  by (cases v) (simp_all add: filter_eq_def constraint_holds_def)

lemma form_query_filter: "form_query form store = filter (satisfies (form_get form)) store"
  unfolding form_query_def Let_def filter_eq_filter filter_filter satisfies_def
  by (rule filter_cong) auto

lemma api_filter_eq_plain:
  assumes "plain_value v"
  shows "api_filter_eq driver col v (Inr rows)
     = Inr (filter (\<lambda>r. constraint_holds (json_text v) (col r)) rows)"
proof (cases v)
  case None
  then show ?thesis
    by (simp add: api_filter_eq_def json_text_def constraint_holds_def)
next
  case (Some j)
  with assms show ?thesis
    by (cases j)
      (auto simp: plain_value_def is_text_def api_filter_eq_def json_text_def
        constraint_holds_def bind_param_def)
qed

lemma api_filter_query_filter:
  assumes "plain_values kvs"
  shows "api_filter_query driver (JObj kvs) store
           = Inr (filter (satisfies (json_filter kvs)) store)"
proof -
  have k: "\<And>k. k \<in> set filter_keys \<Longrightarrow> plain_value (map_of kvs k)"
    using assms by (simp add: plain_values_def list_all_iff)
  have "api_filter_query driver (JObj kvs) store =
     Inr (filter (\<lambda>r. constraint_holds (json_filter kvs ''year'') (year r))
         (filter (\<lambda>r. constraint_holds (json_filter kvs ''employment_status'')
                        (employment_status r))
         (filter (\<lambda>r. constraint_holds (json_filter kvs ''gender'') (gender r))
         (filter (\<lambda>r. constraint_holds (json_filter kvs ''state'') (state r)) store))))"
    by (simp add: api_filter_query_def Let_def api_filter_eq_plain k filter_keys_def
        json_filter_def)
  also have "\<dots> = Inr (filter (satisfies (json_filter kvs)) store)"
    unfolding filter_filter satisfies_def by (rule arg_cong[where f=Inr], rule filter_cong) auto
  finally show ?thesis .
qed

lemma unconstrained_satisfies: "unconstrained flt \<Longrightarrow> satisfies flt r"
  by (auto simp: unconstrained_def satisfies_def filter_keys_def constraint_holds_def)

section \<open>Filtering\<close>

text \<open>
  Claim C1. The rows a filter selects are exactly the rows of the store that meet
  every constraint of the filter, in store order: on the three form routes
  (\<^verbatim>\<open>/explore\<close> POST, \<^verbatim>\<open>/download_csv\<close>, \<^verbatim>\<open>/download_excel\<close>, whose query is
  \<^const>\<open>form_query\<close>) and on \<^verbatim>\<open>/api/filter\<close> for an object body whose four
  values are each absent, falsy or a string. A filter with every field empty
  selects the whole store. Each route formats this selection (the form routes
  after the suppression step).
\<close>

theorem filter_exact_conjunction:
  "form_query form store = filter (satisfies (form_get form)) store \<and>
   (r \<in> set (form_query form store) \<longleftrightarrow> r \<in> set store \<and> satisfies (form_get form) r) \<and>
   (unconstrained (form_get form) \<longrightarrow> form_query form store = store) \<and>
   (plain_values kvs \<longrightarrow>
      api_filter_query driver (JObj kvs) store = Inr (filter (satisfies (json_filter kvs)) store) \<and>
      (\<forall>rs. api_filter_query driver (JObj kvs) store = Inr rs \<longrightarrow>
         (r \<in> set rs \<longleftrightarrow> r \<in> set store \<and> satisfies (json_filter kvs) r)) \<and>
      api_filter driver store (JObj kvs)
        = Inr (jsonify (map record_dict (filter (satisfies (json_filter kvs)) store)))) \<and>
   (plain_values kvs \<and> unconstrained (json_filter kvs) \<longrightarrow>
      api_filter_query driver (JObj kvs) store = Inr store) \<and>
   results (explore test_mode store (Some form))
     = privacy_suppression test_mode (filter (satisfies (form_get form)) store) \<and>
   download_csv test_mode store form
     = csv_output (privacy_suppression test_mode (filter (satisfies (form_get form)) store)) \<and>
   download_excel test_mode store form
     = to_excel (DataFrame (map record_dict
         (privacy_suppression test_mode (filter (satisfies (form_get form)) store))))
         ''PLFS_Data''"
  by (auto simp add: form_query_filter api_filter_query_filter unconstrained_satisfies
      api_filter_def explore_def download_csv_def download_excel_def)

theorem filter_exact_conjunction_witness:
  "form_query [(''state'', ''CA''), (''gender'', [])] example_store = [rec1, rec3] \<and>
   rec3 \<in> set (form_query [(''state'', ''CA''), (''gender'', [])] example_store) \<and>
   form_query [(''gender'', [])] example_store = example_store \<and>
   api_filter_query no_driver
     (JObj [(''year'', JStr ''2020''), (''state'', JStr ''CA''), (''gender'', JNull)])
     example_store = Inr [rec3] \<and>
   api_filter_query no_driver (JObj []) example_store = Inr example_store"
  using filter_exact_conjunction [of "[(''state'', ''CA''), (''gender'', [])]" example_store rec3
      "[(''year'', JStr ''2020''), (''state'', JStr ''CA''), (''gender'', JNull)]" no_driver True]
    filter_exact_conjunction [of "[(''gender'', [])]" example_store rec3 "[]" no_driver True]
  by (simp add: example_store_rows satisfies_def constraint_holds_def form_get_def json_filter_def
      json_text_def plain_values_def plain_value_def is_text_def filter_keys_def
      unconstrained_def rec1_def rec2_def rec3_def)

section \<open>Suppression\<close>

text \<open>
  Claim C2. The suppression step returns the result set unchanged in test mode or
  when it has 5 rows or more, and the empty list otherwise: 4 rows in production
  mode give nothing, 5 rows pass, and test mode passes every set. The three form
  routes apply it to the rows their query selects.
\<close>

theorem privacy_suppression_contract:
  "privacy_suppression test_mode rs = (if test_mode \<or> 5 \<le> length rs then rs else []) \<and>
   (length rs = 4 \<longrightarrow> privacy_suppression False rs = []) \<and>
   (length rs = 5 \<longrightarrow> privacy_suppression False rs = rs) \<and>
   privacy_suppression True rs = rs \<and>
   results (explore test_mode store (Some form))
     = privacy_suppression test_mode (form_query form store) \<and>
   download_csv test_mode store form
     = csv_output (privacy_suppression test_mode (form_query form store)) \<and>
   download_excel test_mode store form
     = to_excel (DataFrame (map record_dict
         (privacy_suppression test_mode (form_query form store)))) ''PLFS_Data''"
  by (simp add: privacy_suppression_def explore_def download_csv_def download_excel_def)

theorem privacy_suppression_contract_witness:
  "privacy_suppression False [rec1, rec2, rec3, rec1] = [] \<and>
   privacy_suppression False [rec1, rec2, rec3, rec1, rec2] = [rec1, rec2, rec3, rec1, rec2] \<and>
   privacy_suppression True [rec1] = [rec1]"
  using privacy_suppression_contract [of False "[rec1, rec2, rec3, rec1]" example_store "[]"]
    privacy_suppression_contract [of False "[rec1, rec2, rec3, rec1, rec2]" example_store "[]"]
    privacy_suppression_contract [of True "[rec1]" example_store "[]"]
  by simp



section \<open>The fetch-all route\<close>

text \<open>
  Claim C5. \<^verbatim>\<open>/api/data\<close> neither filters nor suppresses: for every store and in
  either mode it answers with the JSON array of one object per record of the
  store, in store order, each with the fields state, gender, age, year,
  employment_status and wage.
\<close>

theorem api_data_returns_every_record:
  "api_data store =
     JArr (map (\<lambda>r. JObj [(''state'', JStr (state r)), (''gender'', JStr (gender r)),
                          (''age'', JNum (age r)), (''year'', JStr (year r)),
                          (''employment_status'', JStr (employment_status r)),
                          (''wage'', JNum (wage r))]) store) \<and>
   route test_mode driver store GetApiData = Inr (JsonBody (api_data store)) \<and>
   (\<exists>objs. api_data store = JArr objs \<and> length objs = length store)"
  by (simp add: api_data_def jsonify_def record_dict_def to_json_def route_def comp_def)

theorem api_data_returns_every_record_witness:
  "route False no_driver [rec2] GetApiData =
     Inr (JsonBody (JArr [JObj [(''state'', JStr ''TX''), (''gender'', JStr ''M''),
                          (''age'', JNum 25), (''year'', JStr ''2021''),
                          (''employment_status'', JStr ''Unemployed''),
                          (''wage'', JNum 0)]]))"
  using api_data_returns_every_record [of "[rec2]" False no_driver]
  by (simp add: rec2_def)

section \<open>The CSV export\<close>

lemma digit_not_special: "(d::nat) < 10 \<Longrightarrow> \<not> csv_special (digit_char d)"
proof -
  assume "d < 10"
  then have "d \<in> {0, 1, 2, 3, 4, 5, 6, 7, 8, 9}" by auto
  then show ?thesis
    by (auto simp: csv_special_def dquote_def CR_def LF_def digit_char_def)
qed

lemma str_nat_plain: "\<not> list_ex csv_special (str_nat n)"
proof (induction n rule: str_nat.induct)
  case (1 n)
  show ?case
  proof (cases "n < 10")
    case True
    then show ?thesis by (subst str_nat.simps) (simp add: digit_not_special)
  next
    case False
    then show ?thesis using 1 by (subst str_nat.simps) (simp add: digit_not_special)
  qed
qed

lemma csv_field_str_int: "csv_field (str_int i) = str_int i"
  using str_nat_plain
  by (simp add: csv_field_def str_int_def csv_special_def dquote_def CR_def LF_def)

lemma header_plain: "writeheader si = si @ header_line"
  by (simp add: writeheader_def writer_writerow_def fieldnames_def header_line_def csv_field_def
      py_str_def csv_special_def dquote_def CR_def LF_def)

lemma writerow_data_line: "writerow si (record_dict r) = si @ data_line r"
  by (simp add: writerow_def writer_writerow_def fieldnames_def record_dict_def py_str_def
      data_line_def csv_field_str_int)

lemma foldl_writerow:
  "foldl (\<lambda>si r. writerow si (record_dict r)) si rs = si @ concat (map data_line rs)"
  by (induction rs arbitrary: si) (simp_all add: writerow_data_line)

text \<open>
  Claim C6. The CSV export of a result set (the set left by the suppression step)
  is empty, with no header row, when the set is empty; otherwise it is the header
  row state, gender, age, year, employment_status, wage followed by one data row
  per record, in the order of the set.
\<close>

theorem csv_layout:
  "csv_output [] = [] \<and>
   (rs \<noteq> [] \<longrightarrow> csv_output rs = header_line @ concat (map data_line rs)) \<and>
   download_csv test_mode store form
     = csv_output (privacy_suppression test_mode (form_query form store))"
  by (simp add: csv_output_def foldl_writerow header_plain download_csv_def)

theorem csv_layout_witness:
  "csv_output [] = [] \<and>
   csv_output [rec2, rec1\<lparr>state := ''a,b''\<rparr>] =
     ''state,gender,age,year,employment_status,wage'' @ [CR, LF] @
     ''TX,M,25,2021,Unemployed,0'' @ [CR, LF] @
     [dquote] @ ''a,b'' @ [dquote] @ '',F,30,2021,Employed,50000'' @ [CR, LF]"
  using csv_layout [of "[rec2, rec1\<lparr>state := ''a,b''\<rparr>]" True "[]" "[]"]
  by (simp add: header_line_def data_line_def rec1_def rec2_def csv_field_def csv_special_def
      str_int_def str_nat.simps digit_char_def dquote_def CR_def LF_def)

section \<open>The dropdown lists\<close>

lemma dropWhile_strip_head: "dropWhile py_isspace (strip s) = strip s"
proof -
  define t where "t = dropWhile py_isspace s"
  define u where "u = rev (dropWhile py_isspace (rev t))"
  have t: "t = u @ rev (takeWhile py_isspace (rev t))"
    unfolding u_def by (metis rev_append rev_rev_ident takeWhile_dropWhile_id)
  have "dropWhile py_isspace u = u"
  proof (cases u)
    case Nil
    then show ?thesis by simp
  next
    case (Cons a w)
    from t obtain z where "t = u @ z" by blast
    with Cons have "t \<noteq> []" and "hd t = a" by auto
    then have "\<not> py_isspace a"
      unfolding t_def using hd_dropWhile by metis
    then show ?thesis using Cons by simp
  qed
  then show ?thesis by (simp add: strip_def t_def u_def)
qed

lemma strip_idem: "strip (strip s) = strip s"
proof -
  have "strip (strip s) = rev (dropWhile py_isspace (rev (strip s)))"
    by (subst strip_def) (simp add: dropWhile_strip_head)
  also have "\<dots> = strip s"
    by (simp add: strip_def)
  finally show ?thesis .
qed

lemma loaded_fields_stripped:
  assumes "r \<in> set (load_csv_to_db df)"
  shows "strip (state r) = state r \<and> strip (gender r) = gender r \<and>
         strip (employment_status r) = employment_status r \<and> strip (year r) = year r"
  using assms by (auto simp: load_csv_to_db_def load_row_def strip_idem)

lemma dropdown_stripped:
  assumes "\<And>r. r \<in> set store \<Longrightarrow> strip (col r) = col r"
  shows "dropdown col store = sorted_list_of_set {v \<in> col ` set store. v \<noteq> []}"
proof -
  have "map strip (filter (\<lambda>v. v \<noteq> []) (remdups (map col store)))
          = filter (\<lambda>v. v \<noteq> []) (remdups (map col store))"
    using assms by (intro map_idI) auto
  moreover have "set (filter (\<lambda>v. v \<noteq> []) (remdups (map col store)))
          = {v \<in> col ` set store. v \<noteq> []}"
    by auto
  ultimately show ?thesis by (simp add: dropdown_def)
qed

lemma dropdown_any_store:
  "dropdown col store = sorted_list_of_set (strip ` {v \<in> col ` set store. v \<noteq> []})"
proof -
  have "set (map strip (filter (\<lambda>v. v \<noteq> []) (remdups (map col store))))
          = strip ` {v \<in> col ` set store. v \<noteq> []}"
    by auto
  then show ?thesis by (simp only: dropdown_def)
qed

text \<open>
  Claim C9. For every store the loader builds (the only stores the application
  has), each of the four dropdown lists that \<^verbatim>\<open>/explore\<close> computes (on GET and
  on POST, in either mode) is the sorted list of the distinct non-empty values of
  its column; for the three records of the scenario the state list is CA, TX. On
  any list of records the dropdown is the sorted list of the stripped non-empty
  values, and the loader has stripped every value already.
\<close>

theorem dropdown_sorted_distinct_nonempty:
  "states (explore test_mode (load_csv_to_db df) req)
     = sorted_list_of_set {v \<in> state ` set (load_csv_to_db df). v \<noteq> []} \<and>
   genders (explore test_mode (load_csv_to_db df) req)
     = sorted_list_of_set {v \<in> gender ` set (load_csv_to_db df). v \<noteq> []} \<and>
   emp_status (explore test_mode (load_csv_to_db df) req)
     = sorted_list_of_set {v \<in> employment_status ` set (load_csv_to_db df). v \<noteq> []} \<and>
   years (explore test_mode (load_csv_to_db df) req)
     = sorted_list_of_set {v \<in> year ` set (load_csv_to_db df). v \<noteq> []} \<and>
   states (explore test_mode example_store req) = [''CA'', ''TX''] \<and>
   states (explore test_mode store req)
     = sorted_list_of_set (strip ` {v \<in> state ` set store. v \<noteq> []}) \<and>
   genders (explore test_mode store req)
     = sorted_list_of_set (strip ` {v \<in> gender ` set store. v \<noteq> []}) \<and>
   emp_status (explore test_mode store req)
     = sorted_list_of_set (strip ` {v \<in> employment_status ` set store. v \<noteq> []}) \<and>
   years (explore test_mode store req)
     = sorted_list_of_set (strip ` {v \<in> year ` set store. v \<noteq> []})"
proof -
  have "states (explore test_mode example_store req) = [''CA'', ''TX'']"
    by (simp add: explore_def Let_def dropdown_def example_store_rows rec1_def rec2_def rec3_def
        strip_def py_isspace_def)
  moreover have "states (explore test_mode store req) = dropdown state store"
    "genders (explore test_mode store req) = dropdown gender store"
    "emp_status (explore test_mode store req) = dropdown employment_status store"
    "years (explore test_mode store req) = dropdown year store" for store
    by (simp_all add: explore_def Let_def)
  ultimately show ?thesis
    by (simp add: dropdown_stripped loaded_fields_stripped dropdown_any_store [symmetric])
qed

theorem dropdown_sorted_distinct_nonempty_witness:
  "states (explore True (load_csv_to_db example_rows) None) = [''CA'', ''TX''] \<and>
   years (explore True (load_csv_to_db example_rows) None) = [''2020'', ''2021'']"
proof -
  have "{v \<in> year ` set (load_csv_to_db example_rows). v \<noteq> []} = {''2020'', ''2021''}"
    using example_store_rows
    by (auto simp: example_store_def rec1_def rec2_def rec3_def)
  moreover have "{v \<in> state ` set (load_csv_to_db example_rows). v \<noteq> []} = {''CA'', ''TX''}"
    using example_store_rows
    by (auto simp: example_store_def rec1_def rec2_def rec3_def)
  ultimately show ?thesis
    using dropdown_sorted_distinct_nonempty [of True example_rows None example_store]
    by (simp add: insert_commute)
qed

section \<open>Empty filter values\<close>

lemma filter_eq_effective: "filter_eq col v query = filter_eq col (effective v) query"
  by (simp add: filter_eq_def effective_def split: option.splits)

lemma same_constraints_query:
  assumes "same_constraints f1 f2"
  shows "form_query f1 store = form_query f2 store"
proof -
  have "\<And>k. k \<in> set filter_keys \<Longrightarrow> effective (form_get f1 k) = effective (form_get f2 k)"
    using assms by (simp add: same_constraints_def list_all_iff)
  then have "\<And>k col q. k \<in> set filter_keys \<Longrightarrow>
      filter_eq col (form_get f1 k) q = filter_eq col (form_get f2 k) q"
    by (metis filter_eq_effective)
  then show ?thesis
    by (simp add: form_query_def filter_keys_def)
qed

lemma api_filter_eq_effective:
  "api_filter_eq driver col v query = api_filter_eq driver col (json_effective v) query"
  by (simp add: api_filter_eq_def json_effective_def split: option.splits sum.splits)

lemma same_json_constraints_query:
  assumes "same_json_constraints b1 b2"
  shows "api_filter_query driver (JObj b1) store = api_filter_query driver (JObj b2) store"
proof -
  have "\<And>k. k \<in> set filter_keys \<Longrightarrow>
      json_effective (map_of b1 k) = json_effective (map_of b2 k)"
    using assms by (simp add: same_json_constraints_def list_all_iff)
  then have "\<And>k col q. k \<in> set filter_keys \<Longrightarrow>
      api_filter_eq driver col (map_of b1 k) q = api_filter_eq driver col (map_of b2 k) q"
    by (metis api_filter_eq_effective)
  then show ?thesis
    by (simp add: api_filter_query_def filter_keys_def)
qed

lemma constraint_excludes_empty:
  "constraint_holds v [] \<Longrightarrow> effective v = None"
  by (auto simp: constraint_holds_def effective_def split: option.splits)

lemma form_query_empty_field:
  assumes "r \<in> set (form_query form store)"
  shows "(state r = [] \<longrightarrow> effective (form_get form ''state'') = None) \<and>
         (gender r = [] \<longrightarrow> effective (form_get form ''gender'') = None) \<and>
         (employment_status r = [] \<longrightarrow> effective (form_get form ''employment_status'') = None) \<and>
         (year r = [] \<longrightarrow> effective (form_get form ''year'') = None)"
  using assms unfolding form_query_filter
  by (auto simp: satisfies_def dest: constraint_excludes_empty)

lemma api_filter_eq_sound:
  assumes "api_filter_eq driver col v query = Inr rs"
  shows "\<exists>rows. query = Inr rows \<and> set rs \<subseteq> set rows \<and>
           (\<forall>r\<in>set rs. col r = [] \<longrightarrow> (\<forall>s. v = Some (JStr s) \<longrightarrow> s = []))"
  using assms
  by (auto simp: api_filter_eq_def bind_param_def split: sum.splits option.splits if_splits)

lemma api_filter_query_empty_field:
  assumes "api_filter_query driver (JObj kvs) store = Inr rs" and "r \<in> set rs"
  shows "(state r = [] \<longrightarrow> (\<forall>s. map_of kvs ''state'' = Some (JStr s) \<longrightarrow> s = [])) \<and>
         (gender r = [] \<longrightarrow> (\<forall>s. map_of kvs ''gender'' = Some (JStr s) \<longrightarrow> s = [])) \<and>
         (employment_status r = [] \<longrightarrow>
            (\<forall>s. map_of kvs ''employment_status'' = Some (JStr s) \<longrightarrow> s = [])) \<and>
         (year r = [] \<longrightarrow> (\<forall>s. map_of kvs ''year'' = Some (JStr s) \<longrightarrow> s = []))"
proof -
  from assms(1) obtain q3 where
    y: "api_filter_eq driver year (map_of kvs ''year'') q3 = Inr rs" and
    q3: "q3 = api_filter_eq driver employment_status (map_of kvs ''employment_status'')
           (api_filter_eq driver gender (map_of kvs ''gender'')
             (api_filter_eq driver state (map_of kvs ''state'') (Inr store)))"
    by (simp add: api_filter_query_def)
  from api_filter_eq_sound [OF y] obtain r3 where
    r3: "q3 = Inr r3" "set rs \<subseteq> set r3"
      "\<forall>r\<in>set rs. year r = [] \<longrightarrow> (\<forall>s. map_of kvs ''year'' = Some (JStr s) \<longrightarrow> s = [])"
    by blast
  from api_filter_eq_sound [OF r3(1) [unfolded q3]] obtain r2 where
    r2: "api_filter_eq driver gender (map_of kvs ''gender'')
             (api_filter_eq driver state (map_of kvs ''state'') (Inr store)) = Inr r2"
      "set r3 \<subseteq> set r2"
      "\<forall>r\<in>set r3. employment_status r = [] \<longrightarrow>
          (\<forall>s. map_of kvs ''employment_status'' = Some (JStr s) \<longrightarrow> s = [])"
    by blast
  from api_filter_eq_sound [OF r2(1)] obtain r1 where
    r1: "api_filter_eq driver state (map_of kvs ''state'') (Inr store) = Inr r1"
      "set r2 \<subseteq> set r1"
      "\<forall>r\<in>set r2. gender r = [] \<longrightarrow> (\<forall>s. map_of kvs ''gender'' = Some (JStr s) \<longrightarrow> s = [])"
    by blast
  from api_filter_eq_sound [OF r1(1)] have
    r0: "\<forall>r\<in>set r1. state r = [] \<longrightarrow> (\<forall>s. map_of kvs ''state'' = Some (JStr s) \<longrightarrow> s = [])"
    by blast
  from assms(2) r3(2) r2(2) r1(2) have "r \<in> set r3" "r \<in> set r2" "r \<in> set r1" by auto
  with assms(2) r3(3) r2(3) r1(3) r0 show ?thesis by blast
qed

text \<open>
  Claim C10. A filter field set to the empty string (on \<^verbatim>\<open>/api/filter\<close>, to any
  falsy value) constrains nothing, as if it were absent: two requests whose four
  fields agree once empty values are dropped select the same rows on
  \<^verbatim>\<open>/explore\<close> POST, \<^verbatim>\<open>/download_csv\<close>, \<^verbatim>\<open>/download_excel\<close> and
  \<^verbatim>\<open>/api/filter\<close>. Hence a selected record whose field is the empty string was
  not selected by a constraint on that field: the request's value for the field
  is absent or empty.
\<close>

theorem empty_value_imposes_no_constraint:
  "(same_constraints f1 f2 \<longrightarrow>
      form_query f1 store = form_query f2 store \<and>
      results (explore test_mode store (Some f1)) = results (explore test_mode store (Some f2)) \<and>
      download_csv test_mode store f1 = download_csv test_mode store f2 \<and>
      download_excel test_mode store f1 = download_excel test_mode store f2) \<and>
   (same_json_constraints b1 b2 \<longrightarrow>
      api_filter driver store (JObj b1) = api_filter driver store (JObj b2)) \<and>
   (r \<in> set (form_query form store) \<longrightarrow>
      (state r = [] \<longrightarrow> effective (form_get form ''state'') = None) \<and>
      (gender r = [] \<longrightarrow> effective (form_get form ''gender'') = None) \<and>
      (employment_status r = [] \<longrightarrow> effective (form_get form ''employment_status'') = None) \<and>
      (year r = [] \<longrightarrow> effective (form_get form ''year'') = None)) \<and>
   (api_filter_query driver (JObj kvs) store = Inr rs \<and> r \<in> set rs \<longrightarrow>
      (state r = [] \<longrightarrow> (\<forall>s. map_of kvs ''state'' = Some (JStr s) \<longrightarrow> s = [])) \<and>
      (gender r = [] \<longrightarrow> (\<forall>s. map_of kvs ''gender'' = Some (JStr s) \<longrightarrow> s = [])) \<and>
      (employment_status r = [] \<longrightarrow>
         (\<forall>s. map_of kvs ''employment_status'' = Some (JStr s) \<longrightarrow> s = [])) \<and>
      (year r = [] \<longrightarrow> (\<forall>s. map_of kvs ''year'' = Some (JStr s) \<longrightarrow> s = [])))"
proof -
  have a: "same_constraints f1 f2 \<longrightarrow>
      form_query f1 store = form_query f2 store \<and>
      results (explore test_mode store (Some f1)) = results (explore test_mode store (Some f2)) \<and>
      download_csv test_mode store f1 = download_csv test_mode store f2 \<and>
      download_excel test_mode store f1 = download_excel test_mode store f2"
    by (simp add: same_constraints_query [of f1 f2 store] explore_def download_csv_def
        download_excel_def)
  have b: "same_json_constraints b1 b2 \<longrightarrow>
      api_filter driver store (JObj b1) = api_filter driver store (JObj b2)"
    by (simp add: api_filter_def same_json_constraints_query [of b1 b2 driver store])
  show ?thesis
    using a b form_query_empty_field [of r form store]
      api_filter_query_empty_field [of driver kvs store rs r]
    by blast
qed

theorem empty_value_imposes_no_constraint_witness:
  "form_query [(''state'', [])] [rec1, blank_rec] = form_query [] [rec1, blank_rec] \<and>
   form_query [(''state'', [])] [rec1, blank_rec] = [rec1, blank_rec] \<and>
   api_filter no_driver [rec1, blank_rec] (JObj [(''state'', JStr []), (''year'', JNull)])
     = api_filter no_driver [rec1, blank_rec] (JObj []) \<and>
   effective (form_get [(''state'', [])] ''state'') = None \<and>
   api_filter_query no_driver (JObj [(''state'', JStr [])]) [rec1, blank_rec]
     = Inr [rec1, blank_rec] \<and>
   blank_rec \<in> set [rec1, blank_rec] \<and> state blank_rec = []"
proof -
  have s: "same_constraints [(''state'', [])] []"
    and j: "same_json_constraints [(''state'', JStr []), (''year'', JNull)] []"
    by (simp_all add: same_constraints_def same_json_constraints_def filter_keys_def
        effective_def json_effective_def form_get_def)
  have q: "form_query [(''state'', [])] [rec1, blank_rec] = [rec1, blank_rec]"
    by (simp add: form_query_def filter_eq_def form_get_def)
  then have m: "blank_rec \<in> set (form_query [(''state'', [])] [rec1, blank_rec])"
    and e: "state blank_rec = []"
    by (simp_all add: blank_rec_def)
  have a: "api_filter_query no_driver (JObj [(''state'', JStr [])]) [rec1, blank_rec]
      = Inr [rec1, blank_rec]"
    by (simp add: api_filter_query_def api_filter_eq_def)
  show ?thesis
    using empty_value_imposes_no_constraint [of "[(''state'', [])]" "[]" "[rec1, blank_rec]" True
        "[(''state'', JStr []), (''year'', JNull)]" "[]" no_driver blank_rec "[(''state'', [])]"
        "[(''state'', JStr [])]" "[rec1, blank_rec]"] s j q m e a
    by simp
qed

section \<open>Malformed input\<close>

text \<open>
  Claim C8, as stated, fails on both of its examples. A JSON body that is an
  array raises \<^verbatim>\<open>AttributeError\<close>, an unhandled server error, and so does a
  field whose value is an array, which the driver cannot bind; a field whose
  value is a number is not refused at all: it is compared as text and the
  matching records are returned. None is answered with a 400-style response.
\<close>

theorem api_filter_malformed_body_counterexample:
  "route TEST_MODE sqlite_driver example_store (PostApiFilter (JArr [JStr ''CA'']))
     = Inl AttributeError \<and>
   status_code (route TEST_MODE sqlite_driver example_store
      (PostApiFilter (JArr [JStr ''CA'']))) = 500 \<and>
   status_code (route TEST_MODE sqlite_driver example_store
      (PostApiFilter (JArr [JStr ''CA'']))) \<noteq> 400 \<and>
   route TEST_MODE sqlite_driver example_store
      (PostApiFilter (JObj [(''state'', JArr [JStr ''CA''])])) = Inl DBAPIError \<and>
   status_code (route TEST_MODE sqlite_driver example_store
      (PostApiFilter (JObj [(''state'', JArr [JStr ''CA''])]))) = 500 \<and>
   route TEST_MODE sqlite_driver example_store (PostApiFilter (JObj [(''year'', JNum 2020)]))
     = Inr (JsonBody (jsonify [record_dict rec3])) \<and>
   status_code (route TEST_MODE sqlite_driver example_store
      (PostApiFilter (JObj [(''year'', JNum 2020)]))) = 200"
  by (simp add: route_def api_filter_def api_filter_query_def api_filter_eq_def bind_param_def
      sqlite_driver_def int64_def status_code_def example_store_rows rec1_def rec2_def rec3_def
      str_int_def str_nat.simps digit_char_def)

lemma str_int_not_empty: "str_int n \<noteq> []"
  by (simp add: str_int_def) (subst str_nat.simps, simp)

lemma api_filter_eq_bindable:
  assumes "bindable v"
  shows "api_filter_eq sqlite_driver col v (Inr rows)
     = Inr (filter (\<lambda>r. constraint_holds (bound_text v) (col r)) rows)"
proof (cases v)
  case None
  then show ?thesis
    by (simp add: api_filter_eq_def bound_text_def constraint_holds_def)
next
  case (Some j)
  with assms show ?thesis
    by (cases j)
      (auto simp: bindable_def api_filter_eq_def bound_text_def constraint_holds_def
        bind_param_def sqlite_driver_def str_int_not_empty)
qed

lemma api_filter_eq_unbindable:
  assumes "\<not> bindable v"
  shows "\<exists>e. api_filter_eq sqlite_driver col v q = Inl e"
proof (cases q)
  case (Inl e)
  then show ?thesis by (simp add: api_filter_eq_def)
next
  case (Inr rows)
  from assms obtain j where "v = Some j" and "truthy j"
    by (cases v) (auto simp: bindable_def)
  with assms Inr show ?thesis
    by (cases j)
      (auto simp: bindable_def api_filter_eq_def bind_param_def sqlite_driver_def)
qed

lemma api_filter_eq_failed:
  "\<exists>e. q = Inl e \<Longrightarrow> \<exists>e. api_filter_eq driver col v q = Inl e"
  by (auto simp: api_filter_eq_def)

lemma api_filter_query_bindable:
  assumes "all_bindable kvs"
  shows "api_filter_query sqlite_driver (JObj kvs) store
           = Inr (filter (satisfies (bound_filter kvs)) store)"
proof -
  have k: "\<And>k. k \<in> set filter_keys \<Longrightarrow> bindable (map_of kvs k)"
    using assms by (simp add: all_bindable_def list_all_iff)
  have "api_filter_query sqlite_driver (JObj kvs) store =
     Inr (filter (\<lambda>r. constraint_holds (bound_filter kvs ''year'') (year r))
         (filter (\<lambda>r. constraint_holds (bound_filter kvs ''employment_status'')
                        (employment_status r))
         (filter (\<lambda>r. constraint_holds (bound_filter kvs ''gender'') (gender r))
         (filter (\<lambda>r. constraint_holds (bound_filter kvs ''state'') (state r)) store))))"
    by (simp add: api_filter_query_def Let_def api_filter_eq_bindable k filter_keys_def
        bound_filter_def)
  also have "\<dots> = Inr (filter (satisfies (bound_filter kvs)) store)"
    unfolding filter_filter satisfies_def by (rule arg_cong[where f=Inr], rule filter_cong) auto
  finally show ?thesis .
qed

lemma api_filter_query_unbindable:
  assumes "\<not> all_bindable kvs"
  shows "\<exists>e. api_filter_query sqlite_driver (JObj kvs) store = Inl e"
proof -
  define q1 where "q1 = api_filter_eq sqlite_driver state (map_of kvs ''state'') (Inr store)"
  define q2 where "q2 = api_filter_eq sqlite_driver gender (map_of kvs ''gender'') q1"
  define q3 where "q3 = api_filter_eq sqlite_driver employment_status
      (map_of kvs ''employment_status'') q2"
  define q4 where "q4 = api_filter_eq sqlite_driver year (map_of kvs ''year'') q3"
  have q: "api_filter_query sqlite_driver (JObj kvs) store = q4"
    by (simp add: api_filter_query_def q1_def q2_def q3_def q4_def)
  from assms consider "\<not> bindable (map_of kvs ''state'')" | "\<not> bindable (map_of kvs ''gender'')"
    | "\<not> bindable (map_of kvs ''employment_status'')" | "\<not> bindable (map_of kvs ''year'')"
    by (auto simp: all_bindable_def filter_keys_def)
  then have "\<exists>e. q4 = Inl e"
  proof cases
    case 1
    then have "\<exists>e. q1 = Inl e" unfolding q1_def by (rule api_filter_eq_unbindable)
    then have "\<exists>e. q2 = Inl e" unfolding q2_def by (rule api_filter_eq_failed)
    then have "\<exists>e. q3 = Inl e" unfolding q3_def by (rule api_filter_eq_failed)
    then show ?thesis unfolding q4_def by (rule api_filter_eq_failed)
  next
    case 2
    then have "\<exists>e. q2 = Inl e" unfolding q2_def by (rule api_filter_eq_unbindable)
    then have "\<exists>e. q3 = Inl e" unfolding q3_def by (rule api_filter_eq_failed)
    then show ?thesis unfolding q4_def by (rule api_filter_eq_failed)
  next
    case 3
    then have "\<exists>e. q3 = Inl e" unfolding q3_def by (rule api_filter_eq_unbindable)
    then show ?thesis unfolding q4_def by (rule api_filter_eq_failed)
  next
    case 4
    then show ?thesis unfolding q4_def by (rule api_filter_eq_unbindable)
  qed
  with q show ?thesis by simp
qed

text \<open>
  Claim C8, amended. \<^verbatim>\<open>/api/filter\<close> validates nothing and answers no parsed
  JSON body with a 400-style response. A body that is not an object raises
  \<^verbatim>\<open>AttributeError\<close> (status 500). In an object body, a value of state, gender,
  employment_status or year that is absent or falsy is ignored; a string,
  \<^verbatim>\<open>true\<close> or an integer of 64 bits is compared with the column as text, and the
  matching records are returned with status 200; a non-empty array or object, or
  a larger integer, makes the query fail in the driver (status 500). On the form
  routes a form whose four fields are absent or empty selects the whole store,
  and an absent or empty chart type becomes \<^verbatim>\<open>bar\<close>.
\<close>

theorem api_filter_not_validated:
  "(\<not> is_object body \<longrightarrow>
      route test_mode driver store (PostApiFilter body) = Inl AttributeError \<and>
      status_code (route test_mode driver store (PostApiFilter body)) = 500) \<and>
   (all_bindable kvs \<longrightarrow>
      route test_mode sqlite_driver store (PostApiFilter (JObj kvs))
        = Inr (JsonBody (jsonify (map record_dict
            (filter (satisfies (bound_filter kvs)) store)))) \<and>
      status_code (route test_mode sqlite_driver store (PostApiFilter (JObj kvs))) = 200) \<and>
   (\<not> all_bindable kvs \<longrightarrow>
      (\<exists>e. route test_mode sqlite_driver store (PostApiFilter (JObj kvs)) = Inl e) \<and>
      status_code (route test_mode sqlite_driver store (PostApiFilter (JObj kvs))) = 500) \<and>
   (unconstrained (form_get form) \<longrightarrow> form_query form store = store) \<and>
   map_of (filters (explore test_mode store (Some form))) ''chart_type''
     = Some (Some (or_bar (form_get form ''chart_type''))) \<and>
   or_bar None = ''bar'' \<and> or_bar (Some []) = ''bar''"
proof -
  have a: "\<not> is_object body \<longrightarrow>
      route test_mode driver store (PostApiFilter body) = Inl AttributeError \<and>
      status_code (route test_mode driver store (PostApiFilter body)) = 500"
    by (cases body) (simp_all add: route_def api_filter_def api_filter_query_def status_code_def)
  have b: "all_bindable kvs \<longrightarrow>
      route test_mode sqlite_driver store (PostApiFilter (JObj kvs))
        = Inr (JsonBody (jsonify (map record_dict
            (filter (satisfies (bound_filter kvs)) store)))) \<and>
      status_code (route test_mode sqlite_driver store (PostApiFilter (JObj kvs))) = 200"
    by (simp add: route_def api_filter_def status_code_def api_filter_query_bindable)
  have c: "\<not> all_bindable kvs \<longrightarrow>
      (\<exists>e. route test_mode sqlite_driver store (PostApiFilter (JObj kvs)) = Inl e) \<and>
      status_code (route test_mode sqlite_driver store (PostApiFilter (JObj kvs))) = 500"
  proof
    assume "\<not> all_bindable kvs"
    then obtain e where "api_filter_query sqlite_driver (JObj kvs) store = Inl e"
      using api_filter_query_unbindable by blast
    then show "(\<exists>e. route test_mode sqlite_driver store (PostApiFilter (JObj kvs)) = Inl e) \<and>
      status_code (route test_mode sqlite_driver store (PostApiFilter (JObj kvs))) = 500"
      by (simp add: route_def api_filter_def status_code_def)
  qed
  have d: "unconstrained (form_get form) \<longrightarrow> form_query form store = store"
    by (simp add: form_query_filter unconstrained_satisfies)
  have e: "map_of (filters (explore test_mode store (Some form))) ''chart_type''
     = Some (Some (or_bar (form_get form ''chart_type'')))"
    by (simp add: explore_def)
  have f: "or_bar None = ''bar'' \<and> or_bar (Some []) = ''bar''"
    by (simp add: or_bar_def)
  from a b c d e f show ?thesis
    by (intro conjI) (erule conjunct1 | erule conjunct2 | assumption)+
qed

theorem api_filter_not_validated_witness:
  "route True sqlite_driver example_store (PostApiFilter JNull) = Inl AttributeError \<and>
   status_code (route True sqlite_driver example_store (PostApiFilter JNull)) = 500 \<and>
   route True sqlite_driver example_store
      (PostApiFilter (JObj [(''year'', JNum 2021), (''gender'', JStr ''M''), (''state'', JNum 0)]))
     = Inr (JsonBody (jsonify [record_dict rec2])) \<and>
   status_code (route True sqlite_driver example_store
      (PostApiFilter (JObj [(''year'', JNum 2021), (''gender'', JStr ''M''), (''state'', JNum 0)])))
     = 200 \<and>
   status_code (route True sqlite_driver example_store
      (PostApiFilter (JObj [(''state'', JObj [(''a'', JNull)])]))) = 500 \<and>
   form_query [(''state'', [])] example_store = example_store"
proof -
  have b: "all_bindable [(''year'', JNum 2021), (''gender'', JStr ''M''), (''state'', JNum 0)]"
    by (simp add: all_bindable_def bindable_def int64_def filter_keys_def)
  have n: "\<not> all_bindable [(''state'', JObj [(''a'', JNull)])]"
    by (simp add: all_bindable_def bindable_def int64_def filter_keys_def)
  have f: "filter (satisfies (bound_filter
      [(''year'', JNum 2021), (''gender'', JStr ''M''), (''state'', JNum 0)])) example_store
    = [rec2]"
    by (simp add: bound_filter_def bound_text_def satisfies_def
      constraint_holds_def example_store_rows rec1_def rec2_def rec3_def str_int_def
      str_nat.simps digit_char_def)
  have u: "unconstrained (form_get [(''state'', [])])"
    by (simp add: unconstrained_def form_get_def filter_keys_def)
  have o: "\<not> is_object JNull"
    by simp
  show ?thesis
    using api_filter_not_validated [of JNull True sqlite_driver example_store
        "[(''year'', JNum 2021), (''gender'', JStr ''M''), (''state'', JNum 0)]"
        "[(''state'', [])]"]
      api_filter_not_validated [of JNull True sqlite_driver example_store
        "[(''state'', JObj [(''a'', JNull)])]" "[(''state'', [])]"]
      b n f u o
    by (simp add: status_code_def)
qed

section \<open>The workbook writer\<close>

text \<open>
  \<^verbatim>\<open>/download_excel\<close> is the one form route that can fail: a control character
  in a selected record, which the loader keeps inside a text, is refused by the
  workbook writer, and the view raises.
\<close>

lemma download_excel_control_character:
  "route TEST_MODE sqlite_driver [rec2\<lparr>state := ''T'' @ [CHR 0x01] @ ''X''\<rparr>]
     (PostDownloadExcel []) = Inl IllegalCharacterError"
  by (simp add: route_def download_excel_def TEST_MODE_def privacy_suppression_def
      form_query_def filter_eq_def form_get_def rec2_def DataFrame_def record_dict_def
      to_excel_def write_cell_def illegal_character_def)

section \<open>Reading the CSV export back\<close>

lemma foldl_step_plain:
  "\<not> list_ex csv_special s \<Longrightarrow>
   foldl step (InField, fld, row, rows) s = (InField, fld @ s, row, rows)"
  by (induction s arbitrary: fld) (auto simp: csv_special_def)

lemma foldl_step_quoted:
  "foldl step (InQuotedField, fld, row, rows)
     (concat (map (\<lambda>c. if c = dquote then [dquote, dquote] else [c]) s))
   = (InQuotedField, fld @ s, row, rows)"
  by (induction s arbitrary: fld) auto

lemma dquote_not_newline: "dquote \<noteq> CR" "dquote \<noteq> LF" "dquote \<noteq> CHR '',''"
  "CHR '','' \<noteq> CR" "CHR '','' \<noteq> LF"
  by (simp_all add: dquote_def CR_def LF_def)

lemma field_read:
  "field_done (foldl step (StartField, [], row, rows) (csv_field s)) s row rows"
proof (cases "list_ex csv_special s")
  case True
  then show ?thesis
    by (simp add: csv_field_def start_field_def dquote_not_newline foldl_step_quoted
        field_done_def)
next
  case False
  show ?thesis
  proof (cases s)
    case Nil
    then show ?thesis by (simp add: csv_field_def field_done_def)
  next
    case (Cons c cs)
    with False have c: "\<not> csv_special c" and cs: "\<not> list_ex csv_special cs" by simp_all
    from c have "step (StartField, [], row, rows) c = (InField, [c], row, rows)"
      by (simp add: start_field_def csv_special_def)
    with False Cons cs show ?thesis
      by (simp add: csv_field_def foldl_step_plain field_done_def)
  qed
qed

lemma comma_after_field:
  "field_done \<sigma> s row rows \<Longrightarrow> step \<sigma> (CHR '','') = (StartField, [], row @ [s], rows)"
  by (auto simp: field_done_def start_field_def dquote_not_newline dquote_not_newline [symmetric])

lemma newline_after_field:
  "field_done \<sigma> s row rows \<Longrightarrow> foldl step \<sigma> [CR, LF] = (StartRecord, [], [], rows @ [row @ [s]])"
  by (auto simp: field_done_def start_field_def dquote_not_newline dquote_not_newline [symmetric])

lemma join_fields_Cons:
  "fs \<noteq> [] \<Longrightarrow> join_fields (f # fs) = f @ '','' @ join_fields fs"
  by (cases fs) simp_all

lemma line_read:
  "fs \<noteq> [] \<Longrightarrow>
   foldl step (StartField, [], row, rows) (join_fields (map csv_field fs) @ [CR, LF])
     = (StartRecord, [], [], rows @ [row @ fs])"
proof (induction fs arbitrary: row rule: list_nonempty_induct)
  case (single f)
  show ?case
    using newline_after_field [OF field_read [of row rows f]] by simp
next
  case (cons f fs)
  have "foldl step (StartField, [], row, rows) (csv_field f @ '','')
          = (StartField, [], row @ [f], rows)"
    using comma_after_field [OF field_read [of row rows f]] by simp
  with cons show ?case
    by (simp add: join_fields_Cons)
qed

lemma csv_field_head:
  "s \<noteq> [] \<Longrightarrow> csv_field s \<noteq> [] \<and> hd (csv_field s) \<noteq> CR \<and> hd (csv_field s) \<noteq> LF"
  by (cases s) (auto simp: csv_field_def csv_special_def dquote_not_newline)

lemma line_head:
  assumes "fs \<noteq> []" "fs \<noteq> [[]]"
  shows "hd (join_fields (map csv_field fs) @ [CR, LF]) \<noteq> CR \<and>
         hd (join_fields (map csv_field fs) @ [CR, LF]) \<noteq> LF"
proof (cases fs)
  case Nil
  with assms show ?thesis by simp
next
  case (Cons f gs)
  show ?thesis
  proof (cases "f = []")
    case True
    with assms Cons have "gs \<noteq> []" by simp
    with True Cons show ?thesis
      by (simp add: join_fields_Cons csv_field_def dquote_not_newline)
  next
    case False
    from csv_field_head [OF False] obtain c cs where "csv_field f = c # cs" "c \<noteq> CR" "c \<noteq> LF"
      by (cases "csv_field f") auto
    with Cons show ?thesis
      by (cases gs) simp_all
  qed
qed

lemma start_record_as_field:
  "inp \<noteq> [] \<Longrightarrow> hd inp \<noteq> CR \<and> hd inp \<noteq> LF \<Longrightarrow>
   foldl step (StartRecord, [], [], rows) inp = foldl step (StartField, [], [], rows) inp"
  by (cases inp) simp_all

lemma record_read:
  assumes "fs \<noteq> []" "fs \<noteq> [[]]"
  shows "foldl step (StartRecord, [], [], rows) (join_fields (map csv_field fs) @ [CR, LF])
     = (StartRecord, [], [], rows @ [fs])"
  using start_record_as_field [OF _ line_head [OF assms], of rows] line_read [OF assms(1), of "[]" rows]
  by simp

lemma data_line_fields: "data_line r = join_fields (map csv_field (row_fields r)) @ [CR, LF]"
  by (simp add: data_line_def row_fields_def csv_field_str_int)

lemma header_line_fields: "header_line = join_fields (map csv_field fieldnames) @ [CR, LF]"
  by (simp add: header_line_def fieldnames_def csv_field_def csv_special_def dquote_def CR_def
      LF_def)

lemma data_lines_read:
  "foldl step (StartRecord, [], [], rows) (concat (map data_line rs))
     = (StartRecord, [], [], rows @ map row_fields rs)"
proof (induction rs arbitrary: rows)
  case Nil
  show ?case by simp
next
  case (Cons r rs)
  have "foldl step (StartRecord, [], [], rows) (data_line r)
          = (StartRecord, [], [], rows @ [row_fields r])"
    unfolding data_line_fields by (rule record_read) (simp_all add: row_fields_def)
  with Cons show ?case by simp
qed

lemma csv_reader_output:
  "csv_reader (csv_output rs) = (if rs = [] then [] else fieldnames # map row_fields rs)"
proof (cases "rs = []")
  case True
  then show ?thesis by (simp add: csv_reader_def csv_output_def)
next
  case False
  have "foldl step (StartRecord, [], [], []) header_line = (StartRecord, [], [], [fieldnames])"
    unfolding header_line_fields using record_read [of fieldnames "[]"]
    by (simp add: fieldnames_def)
  with False show ?thesis
    by (simp add: csv_reader_def csv_output_def foldl_writerow header_plain data_lines_read)
qed

lemma digit_val_digit_char: "d < 10 \<Longrightarrow> digit_val (digit_char d) = Some d"
proof -
  assume "d < 10"
  then have "d \<in> {0, 1, 2, 3, 4, 5, 6, 7, 8, 9}" by auto
  then show ?thesis
    by (auto simp: digit_val_def digit_char_def)
qed

lemma digit_char_not_minus: "d < 10 \<Longrightarrow> digit_char d \<noteq> CHR ''-''"
proof -
  assume "d < 10"
  then have "d \<in> {0, 1, 2, 3, 4, 5, 6, 7, 8, 9}" by auto
  then show ?thesis
    by (auto simp: digit_char_def)
qed

lemma str_nat_parse:
  "str_nat n \<noteq> [] \<and> hd (str_nat n) \<noteq> CHR ''-'' \<and>
   foldl parse_digit (Some 0) (str_nat n) = Some n"
proof (induction n rule: str_nat.induct)
  case (1 n)
  show ?case
  proof (cases "n < 10")
    case True
    then show ?thesis
      by (subst (1 2 3) str_nat.simps)
        (simp add: parse_digit_def digit_val_digit_char digit_char_not_minus)
  next
    case False
    with 1 have ih: "str_nat (n div 10) \<noteq> []" "hd (str_nat (n div 10)) \<noteq> CHR ''-''"
      "foldl parse_digit (Some 0) (str_nat (n div 10)) = Some (n div 10)"
      by simp_all
    have "n mod 10 < 10" by simp
    with False ih show ?thesis
      by (subst (1 2 3) str_nat.simps) (simp add: parse_digit_def digit_val_digit_char)
  qed
qed

lemma parse_nat_str_nat: "parse_nat (str_nat n) = Some n"
  using str_nat_parse [of n] by (simp add: parse_nat_def)

lemma parse_int_str_int: "parse_int (str_int i) = Some i"
proof (cases "i < 0")
  case True
  then show ?thesis
    by (simp add: parse_int_def str_int_def parse_nat_str_nat)
next
  case False
  obtain c cs where s: "str_nat (nat i) = c # cs" and "c \<noteq> CHR ''-''"
    using str_nat_parse [of "nat i"] by (cases "str_nat (nat i)") auto
  with False show ?thesis
    using parse_nat_str_nat [of "nat i"] by (simp add: parse_int_def str_int_def)
qed

lemma those_map_Some: "those (map (\<lambda>x. Some (f x)) xs) = Some (map f xs)"
  by (induction xs) simp_all

lemma row_object_fields:
  "row_object fieldnames (row_fields r)
     = Some (JObj (map (\<lambda>kv. (fst kv, to_json (snd kv))) (record_dict r)))"
  by (simp add: row_object_def fieldnames_def row_fields_def typed_value_def parse_int_str_int
      record_dict_def to_json_def)

lemma parse_back_output:
  "jsonify (map record_dict rs) = JArr objs \<Longrightarrow> parse_back (csv_output rs) = Some objs"
proof -
  assume "jsonify (map record_dict rs) = JArr objs"
  then have o: "objs = map (\<lambda>r. JObj (map (\<lambda>kv. (fst kv, to_json (snd kv))) (record_dict r))) rs"
    by (simp add: jsonify_def comp_def)
  show ?thesis
  proof (cases "rs = []")
    case True
    with o show ?thesis by (simp add: parse_back_def csv_reader_output)
  next
    case False
    then show ?thesis
      by (simp add: parse_back_def csv_reader_output comp_def row_object_fields those_map_Some o)
  qed
qed

lemma json_of_form_filter:
  "plain_values (map (\<lambda>kv. (fst kv, JStr (snd kv))) form) \<and>
   json_filter (map (\<lambda>kv. (fst kv, JStr (snd kv))) form) = form_get form"
proof -
  have m: "map_of (map (\<lambda>kv. (fst kv, JStr (snd kv))) form) k = map_option JStr (map_of form k)" for k
    by (induction form) auto
  show ?thesis
    by (auto simp: plain_values_def plain_value_def list_all_iff is_text_def json_filter_def
        json_text_def form_get_def m fun_eq_iff split: option.splits)
qed

lemma api_filter_json_of_form:
  "api_filter driver store (json_of_form form)
     = Inr (jsonify (map record_dict (form_query form store)))"
  using json_of_form_filter [of form]
  by (simp add: json_of_form_def api_filter_def api_filter_query_filter form_query_filter)

text \<open>
  Where no suppression applies (test mode, or a selection of 5 rows or more, or of
  none), reading the CSV of \<^verbatim>\<open>/download_csv\<close> back gives exactly the objects of
  the JSON array of \<^verbatim>\<open>/api/filter\<close> for the same filter, in the same order.
\<close>

lemma csv_json_round_trip_unsuppressed:
  "test_mode \<or> 5 \<le> length (form_query form store) \<or> form_query form store = [] \<Longrightarrow>
   \<exists>objs. api_filter driver store (json_of_form form) = Inr (JArr objs) \<and>
          parse_back (download_csv test_mode store form) = Some objs"
proof -
  assume "test_mode \<or> 5 \<le> length (form_query form store) \<or> form_query form store = []"
  then have "privacy_suppression test_mode (form_query form store) = form_query form store"
    by (auto simp: privacy_suppression_def)
  then have "download_csv test_mode store form = csv_output (form_query form store)"
    by (simp add: download_csv_def)
  moreover obtain objs where "jsonify (map record_dict (form_query form store)) = JArr objs"
    by (simp add: jsonify_def)
  ultimately show ?thesis
    using parse_back_output [of "form_query form store" objs]
    by (simp add: api_filter_json_of_form)
qed

section \<open>Suppression on the JSON filter route\<close>

text \<open>
  Claim C3. \<^verbatim>\<open>/api/filter\<close> has no suppression step: in production mode, on a
  store of one record, the empty filter is answered with that record, while
  \<^verbatim>\<open>/explore\<close> POST shows no row for the same filter.
\<close>

theorem api_filter_unsuppressed_in_production:
  "route False no_driver [rec2] (PostApiFilter (JObj []))
     = Inr (JsonBody (JArr [JObj [(''state'', JStr ''TX''), (''gender'', JStr ''M''),
                                 (''age'', JNum 25), (''year'', JStr ''2021''),
                                 (''employment_status'', JStr ''Unemployed''),
                                 (''wage'', JNum 0)]])) \<and>
   results (explore False [rec2] (Some [])) = []"
  by (simp add: route_def api_filter_def api_filter_query_def api_filter_eq_def jsonify_def
      record_dict_def to_json_def rec2_def explore_def form_query_def filter_eq_def form_get_def
      privacy_suppression_def)

text \<open>
  Claim C7. In production mode, on a store of one record and the empty filter,
  \<^verbatim>\<open>/download_csv\<close> gives the empty payload while \<^verbatim>\<open>/api/filter\<close> gives the
  record: the two exports do not hold the same rows. The two formats themselves
  agree on every result set (\<open>parse_back_output\<close>), and so do the two routes
  wherever no suppression applies (\<open>csv_json_round_trip_unsuppressed\<close>); the
  difference is the suppression step that \<^verbatim>\<open>/api/filter\<close> lacks.
\<close>

theorem csv_and_json_differ_in_production:
  "download_csv False [rec2] [] = [] \<and>
   api_filter no_driver [rec2] (JObj [])
     = Inr (JArr [JObj [(''state'', JStr ''TX''), (''gender'', JStr ''M''),
                        (''age'', JNum 25), (''year'', JStr ''2021''),
                        (''employment_status'', JStr ''Unemployed''),
                        (''wage'', JNum 0)]])"
  by (simp add: api_filter_def api_filter_query_def api_filter_eq_def jsonify_def
      record_dict_def to_json_def rec2_def download_csv_def form_query_def filter_eq_def
      form_get_def privacy_suppression_def csv_output_def)

end
